theory Spec2Isabelle
  imports Main "HOL-Library.Word" "HOL-Library.Signed_Division"
begin

unbundle bit_operations_syntax

section \<open>Data model of motosh\_time.c\<close>

text \<open>
  The C integer types of the file. \<open>int64_t\<close> and \<open>uint64_t\<close> share the 64-bit
  word type; a value is read as signed with \<open>sint\<close> and as unsigned with \<open>uint\<close>.
  Arithmetic on words wraps around, which is what the kernel's build
  (\<open>-fno-strict-overflow\<close>) gives signed arithmetic too.
\<close>

type_synonym s64 = "64 word"
type_synonym u64 = "64 word"
type_synonym s32 = "32 word"
type_synonym u8 = "8 word"

definition MAX_DRIFT_LATENCY :: s64 where
  "MAX_DRIFT_LATENCY = 100000000"

definition MIN_DRIFT_LATENCY :: s64 where
  "MIN_DRIFT_LATENCY = 200000"

definition DRIFT_NUDGE :: s64 where
  "DRIFT_NUDGE = 50000"

text \<open>
  The state the three functions share: the static \<open>motosh_realtime_delta\<close>, and what
  \<open>motosh_time_sync\<close> does to its surroundings: whether \<open>spin_lock_init\<close> has run on
  \<open>time_sync_lock\<close>, the levels written to the wake line with \<open>gpio_set_value\<close>
  (oldest first), and the messages given to \<open>dev_err\<close> (oldest first).
\<close>

record motosh_state =
  motosh_realtime_delta :: s64
  time_sync_lock_ready :: bool
  gpio_sh_wake :: "bool list"
  dev_err_log :: "string list"

text \<open>
  What \<open>get_monotonic_boottime\<close> writes: the two fields of \<open>struct timespec\<close>, each
  already converted to \<open>long long\<close>, as the expression that reads them does.
\<close>

record timespec =
  tv_sec :: s64
  tv_nsec :: s64

text \<open>
  What \<open>motosh_i2c_write_read\<close> leaves behind: its return value and the eight bytes
  that stand in \<open>readbuff\<close> after the call.
\<close>

record i2c_result =
  i2c_err :: s32
  i2c_readbuff :: "u8 list"

section \<open>motosh\_time\_drift\_comp\<close>

text \<open>
  The function returns \<open>nudged\<close> (an \<open>int\<close>) and updates the offset. The block
  under \<open>MOTOSH_TIME_DEBUG\<close> only prints and counts calls; it reads \<open>nudged\<close> and
  \<open>offset\<close> and writes neither them nor the offset.
\<close>

definition motosh_time_drift_comp ::
  "s64 \<Rightarrow> s64 \<Rightarrow> bool \<Rightarrow> motosh_state \<Rightarrow> s32 \<times> motosh_state" where
  "motosh_time_drift_comp rec_hub cur_time streaming s =
     (let offset = cur_time - rec_hub in
      if streaming \<and> sint MAX_DRIFT_LATENCY < sint offset then
        (1, s\<lparr>motosh_realtime_delta := motosh_realtime_delta s + DRIFT_NUDGE\<rparr>)
      else if sint offset < sint MIN_DRIFT_LATENCY then
        (- 1, s\<lparr>motosh_realtime_delta := motosh_realtime_delta s - DRIFT_NUDGE\<rparr>)
      else
        (0, s))"

text \<open>A caller that invokes the compensator \<open>n\<close> times with the same arguments.\<close>

fun drift_comp_repeat :: "nat \<Rightarrow> s64 \<Rightarrow> s64 \<Rightarrow> bool \<Rightarrow> motosh_state \<Rightarrow> motosh_state" where
  "drift_comp_repeat 0 rec_hub cur_time streaming s = s"
| "drift_comp_repeat (Suc n) rec_hub cur_time streaming s =
     drift_comp_repeat n rec_hub cur_time streaming
       (snd (motosh_time_drift_comp rec_hub cur_time streaming s))"

section \<open>motosh\_time\_recover\<close>

text \<open>
  Modelled from the spec: \<open>div64_s64\<close>, the kernel's signed 64-bit division, which is
  not part of this file; the specification calls it a truncating signed 64-bit division.
\<close>

definition div64_s64 :: "s64 \<Rightarrow> s64 \<Rightarrow> s64" where
  "div64_s64 dividend divisor = word_of_int (sint dividend sdiv sint divisor)"

text \<open>The statement \<open>hubshort *= 16\<close> on an \<open>int32_t\<close>.\<close>

definition hubshort_usec :: "s32 \<Rightarrow> s32" where
  "hubshort_usec hubshort = hubshort * 16"

text \<open>The first value of \<open>hubtime_estimate\<close>, in microseconds.\<close>

definition hubtime_estimate0 :: "s64 \<Rightarrow> motosh_state \<Rightarrow> s64" where
  "hubtime_estimate0 cur_time s = div64_s64 (cur_time - motosh_realtime_delta s) 1000"

text \<open>The assignment to \<open>short_hubtime_estimate\<close>: a 64-bit value stored in an \<open>int32_t\<close>.\<close>

definition short_estimate :: "s64 \<Rightarrow> s32" where
  "short_estimate hubtime_estimate = ucast (hubtime_estimate AND 0xFFFFFFF)"

text \<open>
  The rollover test: \<open>hubtime_estimate\<close> after the \<open>if\<close> / \<open>else if\<close>, given the
  scaled \<open>hubshort\<close>. Both differences are \<open>int\<close> subtractions.
\<close>

definition roll_estimate :: "s64 \<Rightarrow> s32 \<Rightarrow> s64" where
  "roll_estimate hubtime_estimate hubshort =
     (let short_hubtime_estimate = short_estimate hubtime_estimate in
      if 130000000 < sint (short_hubtime_estimate - hubshort) then
        hubtime_estimate + 0x010000000
      else if 130000000 < sint (hubshort - short_hubtime_estimate) then
        hubtime_estimate - 0x010000000
      else hubtime_estimate)"

text \<open>
  The whole function. The mask \<open>0xFFFFFFFFF0000000\<close> is an unsigned 64-bit constant;
  \<open>hubshort & 0xFFFFFFF\<close> is an \<open>int\<close>, converted to 64 bits with its sign. The
  function returns the state it was given: it has no assignment to the offset.
\<close>

definition motosh_time_recover :: "s32 \<Rightarrow> s64 \<Rightarrow> motosh_state \<Rightarrow> s64 \<times> motosh_state" where
  "motosh_time_recover hubshort0 cur_time s =
     (let hubshort = hubshort_usec hubshort0;
          hubtime_estimate = roll_estimate (hubtime_estimate0 cur_time s) hubshort;
          hubtime = ((hubtime_estimate AND 0xFFFFFFFFF0000000) OR
                     scast (hubshort AND 0xFFFFFFF)) * 1000
      in (hubtime + motosh_realtime_delta s, s))"

section \<open>motosh\_time\_sync\<close>

text \<open>\<open>ap_time1\<close>, from the sampled \<open>timespec\<close>.\<close>

definition ap_time_of :: "timespec \<Rightarrow> s64" where
  "ap_time_of ts = tv_sec ts * 1000000000 + tv_nsec ts"

text \<open>\<open>hub_time\<close>, from the eight bytes of \<open>readbuff\<close>.\<close>

definition hub_time_of :: "u8 list \<Rightarrow> s64" where
  "hub_time_of readbuff =
     (push_bit 56 (ucast (readbuff ! 0)) OR
      push_bit 48 (ucast (readbuff ! 1)) OR
      push_bit 40 (ucast (readbuff ! 2)) OR
      push_bit 32 (ucast (readbuff ! 3)) OR
      push_bit 24 (ucast (readbuff ! 4)) OR
      push_bit 16 (ucast (readbuff ! 5)) OR
      push_bit 8 (ucast (readbuff ! 6)) OR
      ucast (readbuff ! 7)) * 1000"

text \<open>
  The number a byte string writes in base 256, most significant byte first: the
  specification's big-endian decoding, against which \<open>hub_time_of\<close> is compared.
\<close>

definition be64_decode :: "u8 list \<Rightarrow> nat" where
  "be64_decode bytes = foldl (\<lambda>acc b. acc * 256 + unat b) 0 bytes"

text \<open>
  The function, given what the clock and the transport hand it. The steps follow the
  source: the one-time lock initialisation, the wake line driven low, the clock read and
  the line driven high, the exchange and its error message, and the assignment to the
  offset, which no branch skips.
\<close>

definition motosh_time_sync :: "timespec \<Rightarrow> i2c_result \<Rightarrow> motosh_state \<Rightarrow> motosh_state" where
  "motosh_time_sync ts xfer s =
     (let s1 = (if motosh_realtime_delta s = 0 then s\<lparr>time_sync_lock_ready := True\<rparr> else s);
          s2 = s1\<lparr>gpio_sh_wake := gpio_sh_wake s1 @ [False]\<rparr>;
          s3 = s2\<lparr>gpio_sh_wake := gpio_sh_wake s2 @ [True]\<rparr>;
          ap_time1 = ap_time_of ts;
          s4 = (if sint (i2c_err xfer) < 0
                then s3\<lparr>dev_err_log := dev_err_log s3 @ [''Unable to read hub time'']\<rparr>
                else s3);
          hub_time = hub_time_of (i2c_readbuff xfer);
          delta = ap_time1 - hub_time
      in s4\<lparr>motosh_realtime_delta := delta\<rparr>)"

section \<open>Arithmetic on the signed reading\<close>

lemma sint64_sub_exact:
  fixes a b :: s64
  assumes "- (2 ^ 63) \<le> sint a - sint b" and "sint a - sint b < 2 ^ 63"
  shows "sint (a - b) = sint a - sint b"
  using assms by (simp add: sint_word_ariths signed_take_bit_int_eq_self)

lemma sint64_add_exact:
  fixes a b :: s64
  assumes "- (2 ^ 63) \<le> sint a + sint b" and "sint a + sint b < 2 ^ 63"
  shows "sint (a + b) = sint a + sint b"
  using assms by (simp add: sint_word_ariths signed_take_bit_int_eq_self)

lemma sint32_sub_exact:
  fixes a b :: s32
  assumes "- (2 ^ 31) \<le> sint a - sint b" and "sint a - sint b < 2 ^ 31"
  shows "sint (a - b) = sint a - sint b"
  using assms by (simp add: sint_word_ariths signed_take_bit_int_eq_self)

section \<open>Masks and the low 28 bits\<close>

lemma low28_is_mask: "(0xFFFFFFF :: 64 word) = mask 28"
  by (simp add: mask_eq_exp_minus_1)

lemma high36_is_not_mask: "(0xFFFFFFFFF0000000 :: 64 word) = NOT (mask 28)"
  by (simp add: mask_eq_exp_minus_1)

lemma high_bits_as_difference:
  "(x :: 64 word) AND 0xFFFFFFFFF0000000 = x - (x AND 0xFFFFFFF)"
proof -
  have "x - take_bit 28 x = x AND NOT (take_bit 28 x)"
    by (rule disjunctive_diff_eq_and_not) (simp add: bit_eq_iff bit_simps)
  also have "\<dots> = x AND NOT (mask 28)"
    by (auto simp: bit_eq_iff bit_simps)
  finally show ?thesis
    by (simp only: low28_is_mask high36_is_not_mask take_bit_eq_mask)
qed

lemma splice_as_sum:
  fixes x y :: "64 word"
  assumes "y AND 0xFFFFFFFFF0000000 = 0"
  shows "(x AND 0xFFFFFFFFF0000000) OR y = x - (x AND 0xFFFFFFF) + y"
proof -
  have "(x AND 0xFFFFFFFFF0000000) AND y = x AND (y AND 0xFFFFFFFFF0000000)"
    by (simp only: and.assoc and.commute and.left_commute)
  also have "\<dots> = 0" by (simp only: assms and_zero_eq)
  finally have "(x AND 0xFFFFFFFFF0000000) + y = (x AND 0xFFFFFFFFF0000000) OR y"
    by (rule disjunctive_add_eq_or)
  then show ?thesis by (simp only: high_bits_as_difference)
qed

lemma low28_of_int:
  "(word_of_int k :: 64 word) AND 0xFFFFFFF = word_of_int (k mod 2 ^ 28)"
  by (simp only: low28_is_mask and_mask_wi take_bit_eq_mod)

lemma high36_of_small:
  fixes k :: int
  assumes "0 \<le> k" and "k < 2 ^ 28"
  shows "(word_of_int k :: 64 word) AND 0xFFFFFFFFF0000000 = 0"
proof -
  have "(word_of_int k :: 64 word) AND 0xFFFFFFF = word_of_int k"
    using assms by (simp only: low28_of_int) simp
  then show ?thesis
    by (simp only: high_bits_as_difference) simp
qed

lemma short_estimate_sint: "sint (short_estimate x) = uint x mod 2 ^ 28"
proof -
  have b: "uint x mod 2 ^ 28 < 2 ^ 28" "0 \<le> uint x mod 2 ^ 28" by simp_all
  have "short_estimate x = ucast (word_of_int (uint x mod 2 ^ 28) :: 64 word)"
    unfolding short_estimate_def by (simp only: low28_is_mask and_mask_mod_2p)
  also have "\<dots> = word_of_int (uint x mod 2 ^ 28)"
    using b by (simp only: ucast_eq uint_word_of_int) simp
  finally have "sint (short_estimate x) = signed_take_bit 31 (uint x mod 2 ^ 28)"
    by (simp add: sint_sbintrunc')
  also have "\<dots> = uint x mod 2 ^ 28"
    using b by (intro signed_take_bit_int_eq_self) simp_all
  finally show ?thesis .
qed

text \<open>
  The rollover test on integers, for a scaled \<open>hubshort\<close> that keeps both \<open>int\<close>
  subtractions inside 32 bits.
\<close>

lemma roll_estimate_int:
  assumes "- 1879048192 \<le> sint h"
  shows "roll_estimate x h =
     (if 130000000 < uint x mod 2 ^ 28 - sint h then x + 0x10000000
      else if 130000000 < sint h - uint x mod 2 ^ 28 then x - 0x10000000
      else x)"
proof -
  have b: "uint x mod 2 ^ 28 < 268435456" "0 \<le> uint x mod 2 ^ 28" by simp_all
  have h: "sint h < 2147483648" using sint_lt [of h] by simp
  have 1: "sint (short_estimate x - h) = uint x mod 2 ^ 28 - sint h"
    using assms b h by (subst sint32_sub_exact) (simp_all add: short_estimate_sint)
  have 2: "sint (h - short_estimate x) = sint h - uint x mod 2 ^ 28"
    using assms b h by (subst sint32_sub_exact) (simp_all add: short_estimate_sint)
  show ?thesis
    unfolding roll_estimate_def Let_def by (simp only: 1 2)
qed

lemma hubshort_usec_exact:
  assumes "0 \<le> sint h" and "sint h < 2 ^ 27"
  shows "sint (hubshort_usec h) = sint h * 16"
  using assms unfolding hubshort_usec_def
  by (simp add: sint_word_ariths signed_take_bit_int_eq_self)

text \<open>
  The integer fact behind the rollover test: when the estimate and the true value are
  no more than 130,000,000 apart, comparing their low 28 bits finds the multiple of
  \<open>2 ^ 28\<close> that separates their high parts.
\<close>

lemma window_int:
  fixes est H :: int
  assumes "\<bar>est - H\<bar> \<le> 130000000"
  defines "e \<equiv> est mod 268435456" and "f \<equiv> H mod 268435456"
  shows "(if 130000000 < e - f then est + 268435456
          else if 130000000 < f - e then est - 268435456 else est) - e + f = H"
proof -
  define a b where "a = est div 268435456" and "b = H div 268435456"
  have est: "est = 268435456 * a + e" and H: "H = 268435456 * b + f"
    by (simp_all add: a_def b_def e_def f_def)
  have bounds: "0 \<le> e" "e < 268435456" "0 \<le> f" "f < 268435456"
    by (simp_all add: e_def f_def)
  have near: "268435456 * a - 268435456 * b + (e - f) \<le> 130000000"
    "- 130000000 \<le> 268435456 * a - 268435456 * b + (e - f)"
    using assms(1) unfolding est H by (simp_all add: abs_le_iff)
  consider (rollfwd) "130000000 < e - f"
    | (rollback) "\<not> 130000000 < e - f" "130000000 < f - e"
    | (noroll) "\<not> 130000000 < e - f" "\<not> 130000000 < f - e"
    by blast
  then show ?thesis
  proof cases
    case rollfwd
    have "a - b < 0" using near bounds rollfwd by linarith
    moreover have "- 2 < a - b" using near bounds rollfwd by linarith
    ultimately have "a - b = - 1" by linarith
    then have "b = a + 1" by simp
    with rollfwd show ?thesis unfolding est H by simp
  next
    case rollback
    have "0 < a - b" using near bounds rollback by linarith
    moreover have "a - b < 2" using near bounds rollback by linarith
    ultimately have "a - b = 1" by linarith
    then have "a = b + 1" by simp
    with rollback show ?thesis unfolding est H by simp
  next
    case noroll
    have "- 1 < a - b" using near bounds noroll by linarith
    moreover have "a - b < 1" using near bounds noroll by linarith
    ultimately have "a - b = 0" by linarith
    with noroll show ?thesis unfolding est H by simp
  qed
qed

lemma high36_is_complement: "(0xFFFFFFFFF0000000 :: 64 word) = NOT 0xFFFFFFF"
  by simp

lemma scast_low28:
  "(scast ((h :: 32 word) AND 0xFFFFFFF) :: 64 word) = scast h AND 0xFFFFFFF"
  by (simp add: signed_and_eq)

lemma span_distinct:
  fixes x :: "64 word"
  shows "x + 0x10000000 \<noteq> x" "x - 0x10000000 \<noteq> x" "x + 0x10000000 \<noteq> x - 0x10000000"
proof -
  show "x + 0x10000000 \<noteq> x" by simp
  show "x - 0x10000000 \<noteq> x" by simp
  show "x + 0x10000000 \<noteq> x - 0x10000000"
  proof
    assume "x + 0x10000000 = x - 0x10000000"
    then have "(x + 0x10000000) - (x - 0x10000000) = 0" by simp
    then have "(0x20000000 :: 64 word) = 0" by simp
    then show False by simp
  qed
qed

lemma sint32_swap_sub:
  fixes a b :: s32
  assumes "130000000 < sint (a - b)"
  shows "sint (b - a) < 0"
proof -
  have up: "sint (a - b) < 2 ^ 31" using sint_lt [of "a - b"] by simp
  have "b - a = 0 - (a - b)" by simp
  moreover have "sint (0 - (a - b)) = sint (0 :: s32) - sint (a - b)"
    using assms up by (intro sint32_sub_exact) simp_all
  ultimately show ?thesis using assms by simp
qed

lemma roll_estimate_cases:
  "(roll_estimate x h = x + 0x10000000 \<longleftrightarrow> 130000000 < sint (short_estimate x - h))
   \<and> (roll_estimate x h = x - 0x10000000 \<longleftrightarrow> 130000000 < sint (h - short_estimate x))
   \<and> (roll_estimate x h = x \<longleftrightarrow>
        sint (short_estimate x - h) \<le> 130000000 \<and> sint (h - short_estimate x) \<le> 130000000)"
proof -
  have "\<not> 130000000 < sint (h - short_estimate x)" if "130000000 < sint (short_estimate x - h)"
    using sint32_swap_sub [OF that] by simp
  then show ?thesis
    unfolding roll_estimate_def Let_def
    using span_distinct [of x] span_distinct(1,2) [of x, symmetric]
    by auto
qed

section \<open>The truncating division\<close>

lemma sdiv_1000:
  "(k :: int) sdiv 1000 = (if 0 \<le> k then k div 1000 else - ((- k) div 1000))"
  by (simp add: signed_divide_int_def sgn_if)

lemma sdiv_1000_bounds:
  fixes k :: int
  assumes "- (2 ^ 63) \<le> k" and "k < 2 ^ 63"
  shows "- (2 ^ 63) \<le> k sdiv 1000" and "k sdiv 1000 < 2 ^ 63"
  using assms by (simp_all add: sdiv_1000) linarith+

lemma div64_s64_sint: "sint (div64_s64 a 1000) = sint a sdiv 1000"
proof -
  have "- (2 ^ 63) \<le> sint a" "sint a < 2 ^ 63"
    using sint_ge [of a] sint_lt [of a] by simp_all
  then have "signed_take_bit 63 (sint a sdiv 1000) = sint a sdiv 1000"
    by (intro signed_take_bit_int_eq_self sdiv_1000_bounds)
  then show ?thesis
    by (simp add: div64_s64_def sint_sbintrunc')
qed

section \<open>The eight bytes of the hub time\<close>

lemma shift_or_byte:
  fixes x :: "64 word" and b :: u8
  shows "push_bit 8 x OR ucast b = x * 256 + ucast b"
proof -
  have "push_bit 8 x AND ucast b = 0"
    by (auto simp: bit_eq_iff bit_simps dest: bit_imp_le_length)
  then have "push_bit 8 x + ucast b = push_bit 8 x OR ucast b"
    by (rule disjunctive_add_eq_or)
  then show ?thesis by (simp add: push_bit_eq_mult)
qed

lemma horner:
  fixes b0 b1 b2 b3 b4 b5 b6 b7 :: u8
  shows "(push_bit 56 (ucast b0) OR push_bit 48 (ucast b1) OR push_bit 40 (ucast b2) OR
      push_bit 32 (ucast b3) OR push_bit 24 (ucast b4) OR push_bit 16 (ucast b5) OR
      push_bit 8 (ucast b6) OR ucast b7 :: 64 word)
   = push_bit 8 (push_bit 8 (push_bit 8 (push_bit 8 (push_bit 8 (push_bit 8 (push_bit 8
       (ucast b0) OR ucast b1) OR ucast b2) OR ucast b3) OR ucast b4) OR ucast b5) OR ucast b6)
       OR ucast b7"
  by (simp only: push_bit_or push_bit_push_bit or.assoc) simp

lemma bytes_as_number:
  fixes b0 b1 b2 b3 b4 b5 b6 b7 :: u8
  shows "(push_bit 56 (ucast b0) OR push_bit 48 (ucast b1) OR push_bit 40 (ucast b2) OR
      push_bit 32 (ucast b3) OR push_bit 24 (ucast b4) OR push_bit 16 (ucast b5) OR
      push_bit 8 (ucast b6) OR ucast b7 :: 64 word)
   = of_nat (be64_decode [b0, b1, b2, b3, b4, b5, b6, b7])"
proof -
  have u: "(ucast b :: 64 word) = of_nat (unat b)" for b :: u8
    by simp
  have "of_nat (be64_decode [b0, b1, b2, b3, b4, b5, b6, b7]) =
     (((((((ucast b0 * 256 + ucast b1) * 256 + ucast b2) * 256 + ucast b3) * 256 + ucast b4)
        * 256 + ucast b5) * 256 + ucast b6) * 256 + ucast b7 :: 64 word)"
    unfolding be64_decode_def u by (simp only: foldl.simps of_nat_add of_nat_mult) simp
  then show ?thesis
    unfolding horner by (simp only: shift_or_byte)
qed

lemma eight_bytes:
  assumes "length (bs :: 'a list) = 8"
  obtains b0 b1 b2 b3 b4 b5 b6 b7 where "bs = [b0, b1, b2, b3, b4, b5, b6, b7]"
proof -
  from assms have "length bs = Suc (Suc (Suc (Suc (Suc (Suc (Suc (Suc 0)))))))"
    by simp
  then show ?thesis
    by (auto simp: length_Suc_conv intro: that)
qed

lemma hub_time_of_decode:
  assumes "length readbuff = 8"
  shows "hub_time_of readbuff = of_nat (be64_decode readbuff) * 1000"
proof -
  from assms obtain b0 b1 b2 b3 b4 b5 b6 b7
    where bs: "readbuff = [b0, b1, b2, b3, b4, b5, b6, b7]"
    by (rule eight_bytes)
  have "hub_time_of readbuff =
     (push_bit 56 (ucast b0) OR push_bit 48 (ucast b1) OR push_bit 40 (ucast b2) OR
      push_bit 32 (ucast b3) OR push_bit 24 (ucast b4) OR push_bit 16 (ucast b5) OR
      push_bit 8 (ucast b6) OR ucast b7) * 1000"
    unfolding bs hub_time_of_def by simp
  then show ?thesis
    by (simp only: bytes_as_number bs)
qed

lemma sync_delta:
  "motosh_realtime_delta (motosh_time_sync ts xfer s)
     = ap_time_of ts - hub_time_of (i2c_readbuff xfer)"
  by (simp add: motosh_time_sync_def Let_def)

section \<open>From the host clock to the estimate\<close>

lemma aligned_fragment:
  fixes H :: int
  assumes "16 dvd H"
  shows "hubshort_usec (word_of_int ((H mod 2 ^ 28) div 16)) = word_of_int (H mod 2 ^ 28)"
proof -
  have "(16 :: int) dvd 2 ^ 28" by simp
  with assms have "16 dvd H mod 2 ^ 28" by (simp only: dvd_mod_iff)
  then have "(H mod 2 ^ 28) div 16 * 16 = H mod 2 ^ 28" by simp
  then have "word_of_int ((H mod 2 ^ 28) div 16 * 16) = (word_of_int (H mod 2 ^ 28) :: s32)"
    by simp
  then show ?thesis
    unfolding hubshort_usec_def by simp
qed

lemma small_sint32:
  fixes f :: int
  assumes "0 \<le> f" and "f < 2 ^ 28"
  shows "sint (word_of_int f :: s32) = f"
proof -
  have "signed_take_bit 31 f = f"
    using assms by (intro signed_take_bit_int_eq_self) simp_all
  then show ?thesis by (simp add: sint_sbintrunc')
qed

lemma estimate_near:
  fixes x H g :: int
  assumes "x - H * 1000 = g" and "\<bar>g\<bar> \<le> 130000000000"
  shows "\<bar>x sdiv 1000 - H\<bar> \<le> 130000000"
proof (cases "0 \<le> x")
  case True
  have "x = g + H * 1000" using assms(1) by simp
  then have "x div 1000 = g div 1000 + H" by simp
  moreover have "- 130000000 \<le> g div 1000" "g div 1000 \<le> 130000000"
    using assms(2) by linarith+
  ultimately show ?thesis using True by (simp add: sdiv_1000)
next
  case False
  have "- x = - g + (- H) * 1000" using assms(1) by simp
  then have "(- x) div 1000 = (- g) div 1000 + (- H)" by (simp only: div_mult_self2)
  moreover have "- 130000000 \<le> (- g) div 1000" "(- g) div 1000 \<le> 130000000"
    using assms(2) by linarith+
  ultimately show ?thesis using False by (simp add: sdiv_1000)
qed

lemma low28_of_int_mod:
  fixes k :: int
  shows "uint (word_of_int k :: 64 word) mod 2 ^ 28 = k mod 2 ^ 28"
proof -
  have "(2 :: int) ^ 28 dvd 2 ^ 64" by simp
  then have "k mod 2 ^ 64 mod 2 ^ 28 = k mod 2 ^ 28" by (rule mod_mod_cancel)
  then show ?thesis by (simp add: uint_word_of_int)
qed

section \<open>The drift compensator\<close>

lemma drift_comp_in_band:
  assumes "200000 \<le> sint (cur_time - rec_hub)" and "sint (cur_time - rec_hub) \<le> 100000000"
  shows "motosh_time_drift_comp rec_hub cur_time streaming s = (0, s)"
  using assms
  by (simp add: motosh_time_drift_comp_def MAX_DRIFT_LATENCY_def MIN_DRIFT_LATENCY_def)

lemma nudge_distinct:
  fixes d :: s64
  shows "d + 50000 \<noteq> d" "d - 50000 \<noteq> d" "d + 50000 \<noteq> d - 50000"
proof -
  show "d + 50000 \<noteq> d" by simp
  show "d - 50000 \<noteq> d" by simp
  show "d + 50000 \<noteq> d - 50000"
  proof
    assume "d + 50000 = d - 50000"
    then have "(d + 50000) - (d - 50000) = 0" by simp
    then have "(100000 :: s64) = 0" by simp
    then show False by simp
  qed
qed

lemma delta_update_eq:
  "s\<lparr>motosh_realtime_delta := a\<rparr> = s\<lparr>motosh_realtime_delta := b\<rparr> \<longleftrightarrow> a = b"
  by (metis motosh_state.select_convs(1) motosh_state.surjective motosh_state.update_convs(1))

lemma delta_update_id:
  "s\<lparr>motosh_realtime_delta := a\<rparr> = s \<longleftrightarrow> a = motosh_realtime_delta s"
  by (metis motosh_state.select_convs(1) motosh_state.surjective motosh_state.update_convs(1))

lemma delta_update_id':
  "s = s\<lparr>motosh_realtime_delta := a\<rparr> \<longleftrightarrow> a = motosh_realtime_delta s"
  using delta_update_id [where s = s and a = a] by (simp only: eq_commute [of s])

text \<open>
  C6. With the observed offset the 64-bit value \<open>cur_time - rec_hub\<close>: the result is 1,
  and the stored offset has grown by 50,000, exactly when \<open>streaming\<close> holds and the
  observed offset is above 100,000,000; otherwise the result is -1, and the stored
  offset has shrunk by 50,000, exactly when the observed offset is below 200,000,
  whatever \<open>streaming\<close> is; otherwise the result is 0 and the state is the one given. At
  either boundary value there is no nudge. The observed offset is the difference of
  the two times as integers whenever that difference fits a signed 64-bit value.
\<close>

theorem drift_comp_cases:
  fixes rec_hub cur_time :: s64 and streaming :: bool and s :: motosh_state
  defines "obs \<equiv> sint (cur_time - rec_hub)"
  defines "r \<equiv> motosh_time_drift_comp rec_hub cur_time streaming s"
  shows "(fst r = 1 \<longleftrightarrow> streaming \<and> 100000000 < obs)
       \<and> (snd r = s\<lparr>motosh_realtime_delta := motosh_realtime_delta s + 50000\<rparr>
            \<longleftrightarrow> streaming \<and> 100000000 < obs)
       \<and> (fst r = - 1 \<longleftrightarrow> \<not> (streaming \<and> 100000000 < obs) \<and> obs < 200000)
       \<and> (snd r = s\<lparr>motosh_realtime_delta := motosh_realtime_delta s - 50000\<rparr>
            \<longleftrightarrow> \<not> (streaming \<and> 100000000 < obs) \<and> obs < 200000)
       \<and> (fst r = 0 \<longleftrightarrow> \<not> (streaming \<and> 100000000 < obs) \<and> \<not> obs < 200000)
       \<and> (snd r = s \<longleftrightarrow> \<not> (streaming \<and> 100000000 < obs) \<and> \<not> obs < 200000)
       \<and> (obs = 100000000 \<or> obs = 200000 \<longrightarrow> r = (0, s))
       \<and> (- (2 ^ 63) \<le> sint cur_time - sint rec_hub \<and> sint cur_time - sint rec_hub < 2 ^ 63
            \<longrightarrow> obs = sint cur_time - sint rec_hub)"
  unfolding obs_def r_def
  using nudge_distinct [of "motosh_realtime_delta s"]
    nudge_distinct(1,2) [of "motosh_realtime_delta s", symmetric]
  by (simp add: motosh_time_drift_comp_def MAX_DRIFT_LATENCY_def MIN_DRIFT_LATENCY_def
      DRIFT_NUDGE_def Let_def sint64_sub_exact delta_update_eq delta_update_id
      delta_update_id')

theorem drift_comp_cases_witness:
  "(True \<and> 100000000 < sint (100000001 - 0 :: s64))
   \<and> motosh_time_drift_comp 0 100000001 True
         \<lparr>motosh_realtime_delta = 7, time_sync_lock_ready = True, gpio_sh_wake = [],
          dev_err_log = []\<rparr>
       = (1, \<lparr>motosh_realtime_delta = 50007, time_sync_lock_ready = True, gpio_sh_wake = [],
          dev_err_log = []\<rparr>)
   \<and> (\<not> (False \<and> 100000000 < sint (199999 - 0 :: s64)) \<and> sint (199999 - 0 :: s64) < 200000)
   \<and> motosh_time_drift_comp 0 199999 False
         \<lparr>motosh_realtime_delta = 50007, time_sync_lock_ready = True, gpio_sh_wake = [],
          dev_err_log = []\<rparr>
       = (- 1, \<lparr>motosh_realtime_delta = 7, time_sync_lock_ready = True, gpio_sh_wake = [],
          dev_err_log = []\<rparr>)
   \<and> sint (100000000 - 0 :: s64) = 100000000
   \<and> motosh_time_drift_comp 0 100000000 True
         \<lparr>motosh_realtime_delta = 7, time_sync_lock_ready = True, gpio_sh_wake = [],
          dev_err_log = []\<rparr>
       = (0, \<lparr>motosh_realtime_delta = 7, time_sync_lock_ready = True, gpio_sh_wake = [],
          dev_err_log = []\<rparr>)"
  using
    drift_comp_cases [where rec_hub = 0 and cur_time = 100000001 and streaming = True and s =
      "\<lparr>motosh_realtime_delta = 7, time_sync_lock_ready = True, gpio_sh_wake = [],
        dev_err_log = []\<rparr>"]
    drift_comp_cases [where rec_hub = 0 and cur_time = 199999 and streaming = False and s =
      "\<lparr>motosh_realtime_delta = 50007, time_sync_lock_ready = True, gpio_sh_wake = [],
        dev_err_log = []\<rparr>"]
    drift_comp_cases [where rec_hub = 0 and cur_time = 100000000 and streaming = True and s =
      "\<lparr>motosh_realtime_delta = 7, time_sync_lock_ready = True, gpio_sh_wake = [],
        dev_err_log = []\<rparr>"]
  by (simp add: prod_eq_iff)

text \<open>
  C10. Every call returns -1, 0 or 1, and the stored offset afterwards is the stored
  offset before plus the result times 50,000, in the 64-bit arithmetic of the offset;
  nothing else in the state changes. A result of 0 means the state is the one given.
  Where the sum stays within the signed 64-bit range it is the sum of the integers.
\<close>

theorem drift_comp_result_is_effect:
  fixes rec_hub cur_time :: s64 and streaming :: bool and s :: motosh_state
  defines "r \<equiv> motosh_time_drift_comp rec_hub cur_time streaming s"
  shows "sint (fst r) \<in> {- 1, 0, 1}
       \<and> snd r = s\<lparr>motosh_realtime_delta := motosh_realtime_delta s + scast (fst r) * 50000\<rparr>
       \<and> (fst r = 0 \<longrightarrow> snd r = s)
       \<and> (- (2 ^ 63) \<le> sint (motosh_realtime_delta s) + sint (fst r) * 50000
            \<and> sint (motosh_realtime_delta s) + sint (fst r) * 50000 < 2 ^ 63
          \<longrightarrow> sint (motosh_realtime_delta (snd r))
                = sint (motosh_realtime_delta s) + sint (fst r) * 50000)"
proof -
  have "r = (1, s\<lparr>motosh_realtime_delta := motosh_realtime_delta s + 50000\<rparr>)
      \<or> r = (- 1, s\<lparr>motosh_realtime_delta := motosh_realtime_delta s - 50000\<rparr>)
      \<or> r = (0, s)"
    unfolding r_def
    by (simp add: motosh_time_drift_comp_def DRIFT_NUDGE_def Let_def)
  then consider (up) "r = (1, s\<lparr>motosh_realtime_delta := motosh_realtime_delta s + 50000\<rparr>)"
    | (down) "r = (- 1, s\<lparr>motosh_realtime_delta := motosh_realtime_delta s - 50000\<rparr>)"
    | (none) "r = (0, s)"
    by blast
  then show ?thesis
  proof cases
    case up
    have "sint (motosh_realtime_delta s + 50000) = sint (motosh_realtime_delta s) + 50000"
      if "- (2 ^ 63) \<le> sint (motosh_realtime_delta s) + 50000"
        and "sint (motosh_realtime_delta s) + 50000 < 2 ^ 63"
      using that sint64_add_exact [of "motosh_realtime_delta s" 50000] by simp
    with up show ?thesis by simp
  next
    case down
    have "sint (motosh_realtime_delta s - 50000) = sint (motosh_realtime_delta s) - 50000"
      if "- (2 ^ 63) \<le> sint (motosh_realtime_delta s) - 50000"
        and "sint (motosh_realtime_delta s) - 50000 < 2 ^ 63"
      using that sint64_sub_exact [of "motosh_realtime_delta s" 50000] by simp
    with down show ?thesis by simp
  next
    case none
    then show ?thesis by simp
  qed
qed

theorem drift_comp_result_is_effect_witness:
  "fst (motosh_time_drift_comp 0 200000 True
         \<lparr>motosh_realtime_delta = 7, time_sync_lock_ready = True, gpio_sh_wake = [],
          dev_err_log = []\<rparr>) = 0
   \<and> snd (motosh_time_drift_comp 0 200000 True
         \<lparr>motosh_realtime_delta = 7, time_sync_lock_ready = True, gpio_sh_wake = [],
          dev_err_log = []\<rparr>)
       = \<lparr>motosh_realtime_delta = 7, time_sync_lock_ready = True, gpio_sh_wake = [],
          dev_err_log = []\<rparr>
   \<and> sint (motosh_realtime_delta (snd (motosh_time_drift_comp 0 99 False
         \<lparr>motosh_realtime_delta = 7, time_sync_lock_ready = True, gpio_sh_wake = [],
          dev_err_log = []\<rparr>))) = 7 + (- 1) * 50000"
  using
    drift_comp_result_is_effect [of 0 200000 True
      "\<lparr>motosh_realtime_delta = 7, time_sync_lock_ready = True, gpio_sh_wake = [],
        dev_err_log = []\<rparr>"]
    drift_comp_result_is_effect [of 0 99 False
      "\<lparr>motosh_realtime_delta = 7, time_sync_lock_ready = True, gpio_sh_wake = [],
        dev_err_log = []\<rparr>"]
  by (simp add: motosh_time_drift_comp_def MAX_DRIFT_LATENCY_def MIN_DRIFT_LATENCY_def
      DRIFT_NUDGE_def)

text \<open>
  C8. When the difference of the two times, as integers, is at least 200,000 and at
  most 100,000,000, any number of calls with those arguments returns the state it
  started from, so the stored offset is unchanged, whatever \<open>streaming\<close> is.
\<close>

theorem drift_comp_repeat_in_band:
  assumes "200000 \<le> sint cur_time - sint rec_hub"
    and "sint cur_time - sint rec_hub \<le> 100000000"
  shows "drift_comp_repeat n rec_hub cur_time streaming s = s"
proof -
  have obs: "sint (cur_time - rec_hub) = sint cur_time - sint rec_hub"
    using assms by (intro sint64_sub_exact) simp_all
  have one: "motosh_time_drift_comp rec_hub cur_time streaming t = (0, t)" for t
    using assms obs by (intro drift_comp_in_band) simp_all
  show ?thesis
    by (induction n) (simp_all add: one)
qed

theorem drift_comp_repeat_in_band_witness:
  "200000 \<le> sint (200000 :: s64) - sint (0 :: s64)
   \<and> sint (200000 :: s64) - sint (0 :: s64) \<le> 100000000
   \<and> drift_comp_repeat 5 0 200000 True
        \<lparr>motosh_realtime_delta = 7, time_sync_lock_ready = True, gpio_sh_wake = [],
         dev_err_log = []\<rparr>
      = \<lparr>motosh_realtime_delta = 7, time_sync_lock_ready = True, gpio_sh_wake = [],
         dev_err_log = []\<rparr>
   \<and> drift_comp_repeat 5 0 200000 False
        \<lparr>motosh_realtime_delta = 7, time_sync_lock_ready = True, gpio_sh_wake = [],
         dev_err_log = []\<rparr>
      = \<lparr>motosh_realtime_delta = 7, time_sync_lock_ready = True, gpio_sh_wake = [],
         dev_err_log = []\<rparr>"
proof -
  have lo: "200000 \<le> sint (200000 :: s64) - sint (0 :: s64)" by simp
  have hi: "sint (200000 :: s64) - sint (0 :: s64) \<le> 100000000" by simp
  show ?thesis
    using lo hi drift_comp_repeat_in_band [OF lo hi] by simp
qed

section \<open>The recoverer\<close>

text \<open>
  C9. For every fragment and every current time, the state after
  \<open>motosh_time_recover\<close> is the state before: the offset is read, never written.
\<close>

theorem recover_keeps_state:
  "snd (motosh_time_recover hubshort cur_time s) = s"
  by (simp add: motosh_time_recover_def Let_def)

text \<open>
  C5. For every fragment and every current time the result is
  \<open>((corrected_estimate & ~0xFFFFFFF) | (fragment_us & 0xFFFFFFF)) * 1000\<close> plus the
  stored offset, in 64-bit arithmetic, where the corrected estimate is the first
  estimate after the rollover test, the first estimate is the truncating signed
  quotient of \<open>cur_time\<close> minus the offset by 1000, and \<open>fragment_us\<close> is the
  fragment times 16 as an \<open>int32_t\<close>.
\<close>

theorem recover_formula:
  "fst (motosh_time_recover hubshort cur_time s) =
     ((roll_estimate (hubtime_estimate0 cur_time s) (hubshort_usec hubshort) AND NOT 0xFFFFFFF)
        OR (scast (hubshort_usec hubshort) AND 0xFFFFFFF)) * 1000
     + motosh_realtime_delta s
   \<and> sint (hubtime_estimate0 cur_time s)
       = sint (cur_time - motosh_realtime_delta s) sdiv 1000
   \<and> sint (hubshort_usec hubshort) = signed_take_bit 31 (sint hubshort * 16)"
  by (simp only: motosh_time_recover_def Let_def scast_low28 hubtime_estimate0_def
      div64_s64_sint hubshort_usec_def sint_word_ariths high36_is_complement fst_conv)
    simp

text \<open>
  C4. With \<open>fragment_us\<close> the scaled fragment and \<open>estimate_low28\<close> the low 28
  bits of the first estimate, both as the \<open>int32_t\<close> values the function holds: the
  span \<open>0x10000000\<close> is added exactly when \<open>estimate_low28 - fragment_us\<close> is above
  130,000,000, subtracted exactly when \<open>fragment_us - estimate_low28\<close> is above
  130,000,000, and the estimate is left as it is exactly when neither difference is
  above 130,000,000. For a fragment from 0 up to \<open>2 ^ 27\<close> (exclusive) the scaled
  fragment is the fragment times 16 and the two differences are the differences of
  the integers.
\<close>

theorem rollover_threshold:
  fixes hubshort :: s32 and cur_time :: s64 and s :: motosh_state
  defines "est \<equiv> hubtime_estimate0 cur_time s"
  defines "fragment_us \<equiv> hubshort_usec hubshort"
  defines "estimate_low28 \<equiv> short_estimate est"
  shows "(roll_estimate est fragment_us = est + 0x10000000
            \<longleftrightarrow> 130000000 < sint (estimate_low28 - fragment_us))
       \<and> (roll_estimate est fragment_us = est - 0x10000000
            \<longleftrightarrow> 130000000 < sint (fragment_us - estimate_low28))
       \<and> (roll_estimate est fragment_us = est
            \<longleftrightarrow> sint (estimate_low28 - fragment_us) \<le> 130000000
                \<and> sint (fragment_us - estimate_low28) \<le> 130000000)
       \<and> sint estimate_low28 = uint (est AND 0xFFFFFFF)
       \<and> (0 \<le> sint hubshort \<and> sint hubshort < 2 ^ 27 \<longrightarrow>
            sint fragment_us = sint hubshort * 16
            \<and> sint (estimate_low28 - fragment_us) = sint estimate_low28 - sint fragment_us
            \<and> sint (fragment_us - estimate_low28) = sint fragment_us - sint estimate_low28)"
proof -
  have e: "sint estimate_low28 = uint (est AND 0xFFFFFFF)"
    unfolding estimate_low28_def
    by (simp only: short_estimate_sint low28_is_mask and_mask_mod_2p uint_word_of_int) simp
  have eb: "0 \<le> sint estimate_low28" "sint estimate_low28 < 268435456"
    unfolding estimate_low28_def by (simp_all add: short_estimate_sint)
  have d: "sint fragment_us = sint hubshort * 16
      \<and> sint (estimate_low28 - fragment_us) = sint estimate_low28 - sint fragment_us
      \<and> sint (fragment_us - estimate_low28) = sint fragment_us - sint estimate_low28"
    if "0 \<le> sint hubshort" and "sint hubshort < 2 ^ 27"
  proof -
    have f: "sint fragment_us = sint hubshort * 16"
      unfolding fragment_us_def using that by (rule hubshort_usec_exact)
    have fb: "0 \<le> sint fragment_us" "sint fragment_us < 2147483648"
      using that by (simp_all add: f)
    have "sint (estimate_low28 - fragment_us) = sint estimate_low28 - sint fragment_us"
      using eb fb by (intro sint32_sub_exact) simp_all
    moreover have "sint (fragment_us - estimate_low28) = sint fragment_us - sint estimate_low28"
      using eb fb by (intro sint32_sub_exact) simp_all
    ultimately show ?thesis using f by simp
  qed
  show ?thesis
    using roll_estimate_cases [of est fragment_us] e d
    unfolding estimate_low28_def by blast
qed

theorem rollover_threshold_witness:
  "0 \<le> sint (0 :: s32) \<and> sint (0 :: s32) < 2 ^ 27
   \<and> hubtime_estimate0 131000000000
      \<lparr>motosh_realtime_delta = 0, time_sync_lock_ready = True, gpio_sh_wake = [],
       dev_err_log = []\<rparr> = 131000000
   \<and> sint (short_estimate 131000000 - hubshort_usec 0) = 131000000 - 0 * 16
   \<and> roll_estimate 131000000 (hubshort_usec 0) = 131000000 + 0x10000000
   \<and> hubtime_estimate0 130000000000
      \<lparr>motosh_realtime_delta = 0, time_sync_lock_ready = True, gpio_sh_wake = [],
       dev_err_log = []\<rparr> = 130000000
   \<and> sint (short_estimate 130000000 - hubshort_usec 0) = 130000000 - 0 * 16
   \<and> roll_estimate 130000000 (hubshort_usec 0) = 130000000"
  using rollover_threshold [where hubshort = 0 and cur_time = 131000000000 and s =
      "\<lparr>motosh_realtime_delta = 0, time_sync_lock_ready = True, gpio_sh_wake = [],
       dev_err_log = []\<rparr>"]
    rollover_threshold [where hubshort = 0 and cur_time = 130000000000 and s =
      "\<lparr>motosh_realtime_delta = 0, time_sync_lock_ready = True, gpio_sh_wake = [],
       dev_err_log = []\<rparr>"]
  by (simp add: hubtime_estimate0_def div64_s64_def signed_divide_int_def short_estimate_def
      hubshort_usec_def)

text \<open>
  C7, as the code has it. Among the fragments from 0 up to \<open>2 ^ 28\<close> (exclusive), the
  scaled value is the fragment times 16 exactly for those below \<open>2 ^ 27\<close>: from
  \<open>2 ^ 27\<close> on the product does not fit an \<open>int32_t\<close>.
\<close>

theorem scaled_fragment_exact:
  assumes "0 \<le> sint hubshort" and "sint hubshort < 2 ^ 28"
  shows "sint (hubshort_usec hubshort) = sint hubshort * 16 \<longleftrightarrow> sint hubshort < 2 ^ 27"
proof (cases "sint hubshort < 2 ^ 27")
  case True
  with assms(1) show ?thesis by (simp add: hubshort_usec_exact)
next
  case False
  have "sint (hubshort_usec hubshort) < 2 ^ 31"
    using sint_lt [of "hubshort_usec hubshort"] by simp
  with False show ?thesis by simp
qed

theorem scaled_fragment_exact_witness:
  "0 \<le> sint (125000 :: s32) \<and> sint (125000 :: s32) < 2 ^ 28
   \<and> sint (125000 :: s32) < 2 ^ 27
   \<and> sint (hubshort_usec 125000) = 2000000"
  using scaled_fragment_exact [of 125000] by simp

text \<open>
  C7, as the claim states it, fails at the fragment \<open>2 ^ 27\<close>: the scaled value is
  \<open>- (2 ^ 31)\<close>, not \<open>2 ^ 31\<close>.
\<close>

theorem scaled_fragment_counterexample:
  "0 \<le> sint (134217728 :: s32) \<and> sint (134217728 :: s32) < 2 ^ 28
   \<and> sint (hubshort_usec 134217728) = - 2147483648
   \<and> sint (134217728 :: s32) * 16 = 2147483648"
  by (simp add: hubshort_usec_def)

text \<open>
  C2, as the code has it. Let the hub time \<open>H\<close>, in microseconds, be a whole number
  of 16-microsecond ticks, and let \<open>T = H * 1000 + offset\<close> be that instant in the
  host's time base, with the stored offset. If \<open>cur_time\<close> is within
  130,000,000,000 ns of \<open>T\<close> on either side, and \<open>cur_time - offset\<close> and \<open>T\<close> fit
  a signed 64-bit value, then the fragment made of the low 28 bits of \<open>H\<close>, in ticks,
  is recovered to \<open>T\<close>.
\<close>

theorem recover_round_trip:
  fixes H :: int and cur_time :: s64 and s :: motosh_state
  defines "offset \<equiv> sint (motosh_realtime_delta s)"
  defines "T \<equiv> H * 1000 + offset"
  assumes aligned: "16 dvd H"
    and window: "\<bar>sint cur_time - T\<bar> \<le> 130000000000"
    and in_range: "- (2 ^ 63) \<le> sint cur_time - offset" "sint cur_time - offset < 2 ^ 63"
    and T_range: "- (2 ^ 63) \<le> T" "T < 2 ^ 63"
  shows "sint (fst (motosh_time_recover (word_of_int ((H mod 2 ^ 28) div 16)) cur_time s)) = T"
proof -
  define f where "f = H mod 2 ^ 28"
  define est where "est = (sint cur_time - offset) sdiv 1000"
  define e where "e = est mod 2 ^ 28"
  define est' where "est' = (if 130000000 < e - f then est + 268435456
      else if 130000000 < f - e then est - 268435456 else est)"
  have p: "(2 :: int) ^ 28 = 268435456" by simp
  have fb: "0 \<le> f" "f < 2 ^ 28" by (simp_all add: f_def)
  have h: "hubshort_usec (word_of_int ((H mod 2 ^ 28) div 16)) = (word_of_int f :: s32)"
    unfolding f_def using aligned by (rule aligned_fragment)
  have sh: "sint (word_of_int f :: s32) = f"
    using fb by (rule small_sint32)
  have "sint (cur_time - motosh_realtime_delta s) = sint cur_time - offset"
    unfolding offset_def using in_range unfolding offset_def by (rule sint64_sub_exact)
  then have E0: "hubtime_estimate0 cur_time s = word_of_int est"
    by (simp add: hubtime_estimate0_def div64_s64_def est_def)
  have ue: "uint (word_of_int est :: 64 word) mod 2 ^ 28 = e"
    unfolding e_def by (rule low28_of_int_mod)
  have near: "\<bar>est - H\<bar> \<le> 130000000"
    unfolding est_def
  proof (rule estimate_near)
    show "sint cur_time - offset - H * 1000 = sint cur_time - T" by (simp add: T_def)
    show "\<bar>sint cur_time - T\<bar> \<le> 130000000000" by (fact window)
  qed
  have "- 1879048192 \<le> sint (word_of_int f :: s32)" using fb sh by simp
  then have "roll_estimate (word_of_int est) (word_of_int f) =
     (if 130000000 < e - f then (word_of_int est :: 64 word) + 0x10000000
      else if 130000000 < f - e then word_of_int est - 0x10000000
      else word_of_int est)"
    by (simp only: roll_estimate_int ue sh)
  then have E: "roll_estimate (word_of_int est) (word_of_int f) = word_of_int est'"
    by (simp add: est'_def)
  have "est' mod 2 ^ 28 = e"
    unfolding est'_def e_def by (simp add: mod_diff_eq [symmetric, of est 268435456 268435456] )
  then have low: "(word_of_int est' :: 64 word) AND 0xFFFFFFF = word_of_int e"
    by (simp only: low28_of_int)
  have "(scast (word_of_int f AND 0xFFFFFFF :: s32) :: 64 word) = scast (word_of_int f :: s32) AND 0xFFFFFFF"
    by (rule scast_low28)
  also have "scast (word_of_int f :: s32) = (word_of_int f :: 64 word)"
    by (simp only: scast_eq sh)
  also have "(word_of_int f :: 64 word) AND 0xFFFFFFF = word_of_int f"
    using fb by (simp only: low28_of_int) simp
  finally have frag: "(scast (word_of_int f AND 0xFFFFFFF :: s32) :: 64 word) = word_of_int f" .
  have "(word_of_int est' AND 0xFFFFFFFFF0000000) OR (word_of_int f :: 64 word)
      = word_of_int est' - (word_of_int est' AND 0xFFFFFFF) + word_of_int f"
    using fb by (intro splice_as_sum high36_of_small)
  also have "\<dots> = word_of_int (est' - e + f)"
    by (simp only: low) simp
  also have "est' - e + f = H"
    unfolding est'_def e_def f_def p by (rule window_int [OF near])
  finally have hub: "(word_of_int est' AND 0xFFFFFFFFF0000000) OR (word_of_int f :: 64 word)
      = word_of_int H" .
  have "fst (motosh_time_recover (word_of_int ((H mod 2 ^ 28) div 16)) cur_time s)
      = word_of_int H * 1000 + motosh_realtime_delta s"
    by (simp only: motosh_time_recover_def Let_def h E0 E frag hub fst_conv)
  also have "\<dots> = word_of_int T"
    by (simp add: T_def offset_def)
  finally have "sint (fst (motosh_time_recover (word_of_int ((H mod 2 ^ 28) div 16)) cur_time s))
      = signed_take_bit 63 T"
    by (simp add: sint_sbintrunc')
  also have "\<dots> = T"
    using T_range by (intro signed_take_bit_int_eq_self) simp_all
  finally show ?thesis .
qed

theorem recover_round_trip_witness:
  "16 dvd (2000000 :: int)
   \<and> \<bar>sint (2051000000 :: s64) - (2000000 * 1000 + 50000000)\<bar> \<le> 130000000000
   \<and> (word_of_int ((2000000 mod 2 ^ 28) div 16) :: s32) = 125000
   \<and> sint (fst (motosh_time_recover 125000 2051000000
        \<lparr>motosh_realtime_delta = 50000000, time_sync_lock_ready = True, gpio_sh_wake = [],
         dev_err_log = []\<rparr>)) = 2050000000
   \<and> 16 dvd (268435440 :: int)
   \<and> sint (fst (motosh_time_recover (word_of_int ((268435440 mod 2 ^ 28) div 16)) 268435556000
        \<lparr>motosh_realtime_delta = 0, time_sync_lock_ready = True, gpio_sh_wake = [],
         dev_err_log = []\<rparr>)) = 268435440000"
  using recover_round_trip [of 2000000 2051000000
      "\<lparr>motosh_realtime_delta = 50000000, time_sync_lock_ready = True, gpio_sh_wake = [],
        dev_err_log = []\<rparr>"]
    recover_round_trip [of 268435440 268435556000
      "\<lparr>motosh_realtime_delta = 0, time_sync_lock_ready = True, gpio_sh_wake = [],
        dev_err_log = []\<rparr>"]
  by simp

text \<open>
  C2, as the claim states it, fails in two ways. A hub time of 2,000,001 microseconds
  is not a whole number of ticks: its fragment is 125,000, the fragment of 2,000,000,
  and the result is 1000 ns before \<open>T\<close>. And at 131 s, inside half the wrap window,
  the fragment 0 of the hub time 0 is recovered one span too late.
\<close>

theorem recover_round_trip_counterexample:
  "(word_of_int ((2000001 mod 2 ^ 28) div 16) :: s32) = 125000
   \<and> \<bar>sint (2051000000 :: s64) - (2000001 * 1000 + 50000000)\<bar> \<le> 130000000000
   \<and> sint (fst (motosh_time_recover 125000 2051000000
        \<lparr>motosh_realtime_delta = 50000000, time_sync_lock_ready = True, gpio_sh_wake = [],
         dev_err_log = []\<rparr>)) = 2050000000
   \<and> (2050000000 :: int) \<noteq> 2000001 * 1000 + 50000000
   \<and> sint (fst (motosh_time_recover 0 131000000000
        \<lparr>motosh_realtime_delta = 0, time_sync_lock_ready = True, gpio_sh_wake = [],
         dev_err_log = []\<rparr>)) = 268435456000"
  by (simp add: motosh_time_recover_def hubshort_usec_def hubtime_estimate0_def div64_s64_def
      roll_estimate_def short_estimate_def signed_divide_int_def Let_def)

section \<open>The synchroniser\<close>

text \<open>
  C3. For every eight-byte response, every sampled time, every previous state and
  every return value of the exchange, the offset stored is \<open>ap_time1\<close> minus 1000
  times the big-endian value of the eight bytes, in 64-bit arithmetic; the previous
  offset does not enter. Where that difference is not below \<open>- (2 ^ 63)\<close> the stored
  offset is the difference as an integer.
\<close>

theorem sync_stores_delta:
  assumes "length (i2c_readbuff xfer) = 8"
  defines "decoded \<equiv> be64_decode (i2c_readbuff xfer)"
  shows "motosh_realtime_delta (motosh_time_sync ts xfer s)
           = ap_time_of ts - of_nat decoded * 1000
       \<and> (- (2 ^ 63) \<le> sint (ap_time_of ts) - int decoded * 1000 \<longrightarrow>
            sint (motosh_realtime_delta (motosh_time_sync ts xfer s))
              = sint (ap_time_of ts) - int decoded * 1000)"
proof -
  have w: "motosh_realtime_delta (motosh_time_sync ts xfer s)
      = ap_time_of ts - of_nat decoded * 1000"
    unfolding decoded_def using assms(1) by (simp only: sync_delta hub_time_of_decode)
  have "ap_time_of ts - of_nat decoded * 1000
      = (word_of_int (sint (ap_time_of ts) - int decoded * 1000) :: 64 word)"
    by simp
  then have i: "sint (motosh_realtime_delta (motosh_time_sync ts xfer s))
      = signed_take_bit 63 (sint (ap_time_of ts) - int decoded * 1000)"
    unfolding w by (simp only: sint_sbintrunc') simp
  have "sint (ap_time_of ts) - int decoded * 1000 < 2 ^ 63"
    using sint_lt [of "ap_time_of ts"] by simp
  then have "signed_take_bit 63 (sint (ap_time_of ts) - int decoded * 1000)
      = sint (ap_time_of ts) - int decoded * 1000"
    if "- (2 ^ 63) \<le> sint (ap_time_of ts) - int decoded * 1000"
    using that by (intro signed_take_bit_int_eq_self)
  with w i show ?thesis by simp
qed

theorem sync_stores_delta_witness:
  "length [0, 0, 0, 0, 0, 0x0F, 0x42, 0x40 :: u8] = 8
   \<and> be64_decode [0, 0, 0, 0, 0, 0x0F, 0x42, 0x40] = 1000000
   \<and> ap_time_of \<lparr>tv_sec = 1, tv_nsec = 50000000\<rparr> = 1050000000
   \<and> motosh_realtime_delta
        (motosh_time_sync \<lparr>tv_sec = 1, tv_nsec = 50000000\<rparr>
          \<lparr>i2c_err = 0, i2c_readbuff = [0, 0, 0, 0, 0, 0x0F, 0x42, 0x40]\<rparr>
          \<lparr>motosh_realtime_delta = 0, time_sync_lock_ready = False, gpio_sh_wake = [],
           dev_err_log = []\<rparr>) = 50000000"
  using sync_stores_delta [of
      "\<lparr>i2c_err = 0, i2c_readbuff = [0, 0, 0, 0, 0, 0x0F, 0x42, 0x40]\<rparr>"
      "\<lparr>tv_sec = 1, tv_nsec = 50000000\<rparr>"
      "\<lparr>motosh_realtime_delta = 0, time_sync_lock_ready = False, gpio_sh_wake = [],
        dev_err_log = []\<rparr>"]
  by (simp add: be64_decode_def ap_time_of_def)

text \<open>
  C1 is not what the function does. After a failed exchange (return value -5) that
  leaves eight zero bytes in \<open>readbuff\<close>, at the sampled time 5 s and with the
  offset 50,000,000 stored before, the message is logged and the offset is overwritten
  with 5,000,000,000.
\<close>

theorem sync_failed_exchange_overwrites:
  "motosh_time_sync \<lparr>tv_sec = 5, tv_nsec = 0\<rparr>
     \<lparr>i2c_err = - 5, i2c_readbuff = [0, 0, 0, 0, 0, 0, 0, 0]\<rparr>
     \<lparr>motosh_realtime_delta = 50000000, time_sync_lock_ready = True, gpio_sh_wake = [],
      dev_err_log = []\<rparr>
   = \<lparr>motosh_realtime_delta = 5000000000, time_sync_lock_ready = True,
      gpio_sh_wake = [False, True], dev_err_log = [''Unable to read hub time'']\<rparr>"
  by (simp add: motosh_time_sync_def Let_def ap_time_of_def hub_time_of_def)

end
